theory Spec2Isabelle
  imports Complex_Main
begin

section \<open>Strings\<close>

text \<open>
  A JavaScript string is a sequence of UTF-16 code units and \<open>length\<close> counts them.
  The model uses \<^typ>\<open>string\<close>: one \<^typ>\<open>char\<close> per code unit, which covers the code
  units below 256. Every function below treats a code unit only through equality tests
  against ASCII characters, the white-space class and lower-casing, so the restriction
  is to documents written in that range.
\<close>

definition NL :: char where
  "NL = CHR 0x0A"

text \<open>The class \<open>\s\<close> of a JavaScript regular expression (it is also what \<open>trim\<close>
  strips), on code units below 256: tab, line feed, vertical tab, form feed, carriage
  return, space and the no-break space.\<close>

definition isSpace :: "char \<Rightarrow> bool" where
  "isSpace c = (c = CHR 0x09 \<or> c = CHR 0x0A \<or> c = CHR 0x0B \<or> c = CHR 0x0C \<or> c = CHR 0x0D
                \<or> c = CHR 0x20 \<or> c = CHR 0xA0)"

text \<open>\<open>String.prototype.trim\<close>.\<close>

definition trim :: "string \<Rightarrow> string" where
  "trim s = rev (dropWhile isSpace (rev (dropWhile isSpace s)))"

text \<open>\<open>s.split('\n')\<close>: the pieces between line feeds; the empty string gives one
  empty piece. A character that is not the separator joins the piece that follows it
  (\<open>consHead\<close>).\<close>

definition consHead :: "char \<Rightarrow> string list \<Rightarrow> string list" where
  "consHead c ps = (case ps of [] \<Rightarrow> [[c]] | p # rest \<Rightarrow> (c # p) # rest)"

fun splitOn :: "char \<Rightarrow> string \<Rightarrow> string list" where
  "splitOn d [] = [[]]"
| "splitOn d (c # t) = (if c = d then [] # splitOn d t else consHead c (splitOn d t))"

definition splitLines :: "string \<Rightarrow> string list" where
  "splitLines s = splitOn NL s"

text \<open>\<open>lines.join('\n')\<close>.\<close>

fun joinWith :: "string \<Rightarrow> string list \<Rightarrow> string" where
  "joinWith sep [] = []"
| "joinWith sep [x] = x"
| "joinWith sep (x # y # ys) = x @ sep @ joinWith sep (y # ys)"

text \<open>
  One match attempt of the regular expression \<open>/\n\s*\n/\<close> at the head of the text:
  a line feed, then the longest run of white space that still ends in a line feed
  (\<open>\s*\<close> is greedy and backs off to the last line feed of the run). The result is the
  text after the match.
\<close>

fun lastNL :: "string \<Rightarrow> nat option" where
  "lastNL [] = None"
| "lastNL (c # t) = (case lastNL t of Some k \<Rightarrow> Some (Suc k)
                     | None \<Rightarrow> if c = NL then Some 0 else None)"

definition matchBlank :: "string \<Rightarrow> string option" where
  "matchBlank s = (case s of [] \<Rightarrow> None
     | c # t \<Rightarrow> if c = NL
         then (case lastNL (takeWhile isSpace t) of None \<Rightarrow> None | Some k \<Rightarrow> Some (drop (Suc k) t))
         else None)"

lemma matchBlank_shorter: "matchBlank s = Some r \<Longrightarrow> length r < length s"
  by (auto simp: matchBlank_def split: list.splits if_splits option.splits)

text \<open>\<open>s.split(/\n\s*\n/)\<close>: the text is scanned from the left, every match closes the
  current piece and the scan resumes after the match.\<close>

function splitParagraphs :: "string \<Rightarrow> string list" where
  "splitParagraphs [] = [[]]"
| "splitParagraphs (c # t) =
     (case matchBlank (c # t) of
        Some r \<Rightarrow> [] # splitParagraphs r
      | None \<Rightarrow> consHead c (splitParagraphs t))"
  by pat_completeness auto
termination
  by (relation "measure length") (auto dest: matchBlank_shorter)

definition paragraphsOf :: "string \<Rightarrow> string list" where
  "paragraphsOf s = splitParagraphs s"

section \<open>Parsed chunks and the chunk assembler (parser.ts)\<close>

datatype ChunkType = Heading | Paragraph | Code | ListChunk

record ParsedChunk =
  headings :: "string list"
  firstSentence :: string
  chunkType :: ChunkType
  content :: string
  startLine :: int
  endLine :: int

text \<open>\<open>estimateTokenCount\<close>: \<open>Math.ceil(text.length / 4)\<close>.\<close>

definition estimateTokenCount :: "string \<Rightarrow> int" where
  "estimateTokenCount text = \<lceil>real (length text) / 4\<rceil>"

text \<open>
  \<open>mergeSmallChunks\<close>. The loop state is the output list \<open>merged\<close> and the accumulator
  (\<open>None\<close> for \<open>null\<close>); \<open>mergeStep\<close> is one iteration of the loop body. The thresholds are
  the integers of the chunking configuration.
\<close>

fun mergeStep :: "int \<Rightarrow> ParsedChunk list \<times> ParsedChunk option \<Rightarrow> ParsedChunk
    \<Rightarrow> ParsedChunk list \<times> ParsedChunk option" where
  "mergeStep minTokens (merged, None) chunk =
     (if estimateTokenCount (content chunk) < minTokens then (merged, Some chunk)
      else (merged @ [chunk], None))"
| "mergeStep minTokens (merged, Some accumulator) chunk =
     (let tokenCount = estimateTokenCount (content chunk);
          combinedTokens = estimateTokenCount (content accumulator) + tokenCount
      in if combinedTokens < minTokens
         then (merged, Some (accumulator
                 \<lparr> content := content accumulator @ [NL, NL] @ content chunk,
                   endLine := endLine chunk,
                   firstSentence := (if firstSentence accumulator \<noteq> [] then firstSentence accumulator
                                     else firstSentence chunk) \<rparr>))
         else if tokenCount < minTokens then (merged @ [accumulator], Some chunk)
         else (merged @ [accumulator, chunk], None))"

definition mergeLoop :: "int \<Rightarrow> ParsedChunk list \<Rightarrow> ParsedChunk list \<times> ParsedChunk option" where
  "mergeLoop minTokens chunks = foldl (mergeStep minTokens) ([], None) chunks"

definition mergeSmallChunks :: "ParsedChunk list \<Rightarrow> int \<Rightarrow> ParsedChunk list" where
  "mergeSmallChunks chunks minTokens =
     (case mergeLoop minTokens chunks of
        (merged, None) \<Rightarrow> merged
      | (merged, Some accumulator) \<Rightarrow> merged @ [accumulator])"

text \<open>
  \<open>splitLargeChunks\<close>. The inner loop over the paragraphs of one oversized chunk keeps
  the pieces pushed so far, \<open>currentContent\<close>, \<open>currentStartLine\<close> and \<open>lineOffset\<close>.
\<close>

record SplitState =
  pieces :: "ParsedChunk list"
  currentContent :: string
  currentStartLine :: int
  lineOffset :: int

definition makePiece :: "ParsedChunk \<Rightarrow> string \<Rightarrow> int \<Rightarrow> ParsedChunk" where
  "makePiece chunk cur start =
     chunk\<lparr> content := cur, startLine := start,
            endLine := start + int (length (splitLines cur)) - 1 \<rparr>"

definition splitStep :: "ParsedChunk \<Rightarrow> int \<Rightarrow> SplitState \<Rightarrow> string \<Rightarrow> SplitState" where
  "splitStep chunk maxTokens st paragraph =
     (let testContent = (if currentContent st \<noteq> [] then currentContent st @ [NL, NL] @ paragraph
                         else paragraph);
          testTokens = estimateTokenCount testContent;
          st' = (if testTokens > maxTokens \<and> currentContent st \<noteq> []
                 then st\<lparr> pieces := pieces st @ [makePiece chunk (currentContent st) (currentStartLine st)],
                          currentContent := paragraph,
                          currentStartLine := lineOffset st \<rparr>
                 else st\<lparr> currentContent := testContent \<rparr>)
      in st'\<lparr> lineOffset := lineOffset st + int (length (splitLines paragraph)) + 1 \<rparr>)"

definition splitInit :: "ParsedChunk \<Rightarrow> SplitState" where
  "splitInit chunk = \<lparr> pieces = [], currentContent = [], currentStartLine = startLine chunk,
                       lineOffset = startLine chunk \<rparr>"

definition splitChunk :: "ParsedChunk \<Rightarrow> int \<Rightarrow> ParsedChunk list" where
  "splitChunk chunk maxTokens =
     (if estimateTokenCount (content chunk) \<le> maxTokens then [chunk]
      else (let st = foldl (splitStep chunk maxTokens) (splitInit chunk) (paragraphsOf (content chunk))
            in pieces st @
               (if currentContent st \<noteq> []
                then [makePiece chunk (currentContent st) (currentStartLine st)] else [])))"

definition splitLargeChunks :: "ParsedChunk list \<Rightarrow> int \<Rightarrow> ParsedChunk list" where
  "splitLargeChunks chunks maxTokens = concat (map (\<lambda>chunk. splitChunk chunk maxTokens) chunks)"


section \<open>Format parsers (parser.ts)\<close>

text \<open>
  \<open>createChunk\<close> calls \<open>extractFirstSentence\<close> and \<open>detectChunkType\<close>, two
  regular-expression filters over the chunk text whose results (the fields
  \<open>firstSentence\<close> and \<open>chunkType\<close>) no control flow of the parsers, of the assembler or
  of the scanner reads. They are taken as parameters \<open>efs\<close> and \<open>dct\<close>: every statement
  below holds whatever these two functions return.
\<close>

record HeadingEntry =
  level :: nat
  headingText :: string
  lineNo :: nat

definition optList :: "'a option \<Rightarrow> 'a list" where
  "optList x = (case x of None \<Rightarrow> [] | Some a \<Rightarrow> [a])"

definition createChunk :: "(string \<Rightarrow> string) \<Rightarrow> (string \<Rightarrow> ChunkType) \<Rightarrow> string list \<Rightarrow> int \<Rightarrow> int
    \<Rightarrow> HeadingEntry list \<Rightarrow> ParsedChunk option" where
  "createChunk efs dct lines startL endL stack =
     (let c = trim (joinWith [NL] lines)
      in if c = [] then None
         else Some \<lparr> headings = map headingText stack, firstSentence = efs c, chunkType = dct c,
                     content = c, startLine = startL, endLine = endL \<rparr>)"

text \<open>The loop \<open>while (stack.length > 0 && top.level >= level) stack.pop()\<close>.\<close>

definition popHeadings :: "nat \<Rightarrow> HeadingEntry list \<Rightarrow> HeadingEntry list" where
  "popHeadings lvl stack = rev (dropWhile (\<lambda>h. lvl \<le> level h) (rev stack))"

text \<open>\<open>lines[i] ?? ''\<close>: an index outside the array reads as the empty string.\<close>

definition lineAt :: "string list \<Rightarrow> int \<Rightarrow> string" where
  "lineAt lines i = (if 0 \<le> i \<and> i < int (length lines) then lines ! nat i else [])"

definition RST_HEADING_CHARS :: "char list" where
  "RST_HEADING_CHARS = [CHR ''='', CHR ''-'', CHR 0x60, CHR '':'', CHR ''.'', CHR 0x27, CHR 0x22,
                        CHR ''~'', CHR ''^'', CHR ''_'', CHR ''*'', CHR ''+'', CHR ''#'']"

text \<open>\<open>new RegExp(`^\\${c}+$`).test(s)\<close> for one of the heading characters \<open>c\<close>: the escaped
  character stands for itself, so the test holds when \<open>s\<close> is one or more copies of \<open>c\<close>.\<close>

definition repeatOf :: "char \<Rightarrow> string \<Rightarrow> bool" where
  "repeatOf c s = (s \<noteq> [] \<and> list_all (\<lambda>x. x = c) s)"

record RstState =
  rstChunks :: "ParsedChunk list"
  headingStack :: "HeadingEntry list"
  headingCharLevels :: "(char \<times> nat) list"
  currentChunkStart :: int
  currentChunkLines :: "string list"
  pos :: nat

text \<open>The condition under which the loop body takes line \<open>i\<close> as a heading: both \<open>if\<close>s
  of the source, in their order.\<close>

definition isRstHeading :: "string \<Rightarrow> string \<Rightarrow> bool" where
  "isRstHeading line nextLine =
     (case nextLine of [] \<Rightarrow> False
      | underlineChar # _ \<Rightarrow>
          (underlineChar \<in> set RST_HEADING_CHARS \<and> length (trim line) \<le> length (trim nextLine))
          \<and> (repeatOf underlineChar (trim nextLine) \<and> 0 < length (trim line)))"

text \<open>\<open>headingCharLevels\<close> is a \<open>Map\<close> from character to level, kept as the list of its
  entries in insertion order. \<open>assignLevel\<close> is the look-up with insertion of an unseen
  character at level \<open>size\<close>.\<close>

definition assignLevel :: "(char \<times> nat) list \<Rightarrow> char \<Rightarrow> nat \<times> (char \<times> nat) list" where
  "assignLevel m c = (case map_of m c of Some l \<Rightarrow> (l, m)
                      | None \<Rightarrow> (length m, m @ [(c, length m)]))"

definition rstHeadingStep :: "(string \<Rightarrow> string) \<Rightarrow> (string \<Rightarrow> ChunkType) \<Rightarrow> string list \<Rightarrow> RstState
    \<Rightarrow> RstState" where
  "rstHeadingStep efs dct lines st =
     (let i = pos st;
          line = lineAt lines (int i);
          nextLine = lineAt lines (int i + 1);
          prevLine = lineAt lines (int i - 1);
          underlineChar = hd nextLine;
          hasOverline = (prevLine \<noteq> [] \<and> hd prevLine = underlineChar
                          \<and> repeatOf underlineChar (trim prevLine));
          saved = (if currentChunkLines st \<noteq> []
                   then rstChunks st @ optList (createChunk efs dct (currentChunkLines st)
                          (currentChunkStart st) (int i - 1 - (if hasOverline then 1 else 0))
                          (headingStack st))
                   else rstChunks st);
          (lvl, levels) = assignLevel (headingCharLevels st) underlineChar
      in \<lparr> rstChunks = saved,
           headingStack = popHeadings lvl (headingStack st)
                          @ [\<lparr> level = lvl, headingText = trim line, lineNo = i \<rparr>],
           headingCharLevels = levels,
           currentChunkStart = (if hasOverline then int i - 1 else int i),
           currentChunkLines = (if hasOverline then [prevLine, line, nextLine] else [line, nextLine]),
           pos = i + 2 \<rparr>)"

definition rstStep :: "(string \<Rightarrow> string) \<Rightarrow> (string \<Rightarrow> ChunkType) \<Rightarrow> string list \<Rightarrow> RstState
    \<Rightarrow> RstState" where
  "rstStep efs dct lines st =
     (if isRstHeading (lineAt lines (int (pos st))) (lineAt lines (int (pos st) + 1))
      then rstHeadingStep efs dct lines st
      else st\<lparr> currentChunkLines := currentChunkLines st @ [lineAt lines (int (pos st))],
               pos := pos st + 1 \<rparr>)"

lemma rstStep_advances: "pos st < pos (rstStep efs dct lines st)"
  by (simp add: rstStep_def rstHeadingStep_def Let_def split: prod.splits)

function rstLoop :: "(string \<Rightarrow> string) \<Rightarrow> (string \<Rightarrow> ChunkType) \<Rightarrow> string list \<Rightarrow> RstState
    \<Rightarrow> RstState" where
  "rstLoop efs dct lines st =
     (if pos st < length lines then rstLoop efs dct lines (rstStep efs dct lines st) else st)"
  by pat_completeness auto
termination
proof (relation "measure (\<lambda>(efs, dct, lines, st). length lines - pos st)")
  show "wf (measure (\<lambda>(efs, dct, lines, st). length lines - pos st))"
    by simp
next
  fix efs :: "string \<Rightarrow> string" and dct :: "string \<Rightarrow> ChunkType"
    and lines :: "string list" and st :: RstState
  assume "pos st < length lines"
  then show "((efs, dct, lines, rstStep efs dct lines st), (efs, dct, lines, st))
      \<in> measure (\<lambda>(efs, dct, lines, st). length lines - pos st)"
    using rstStep_advances[of st efs dct lines] by simp
qed

declare rstLoop.simps [simp del]

definition rstInit :: RstState where
  "rstInit = \<lparr> rstChunks = [], headingStack = [], headingCharLevels = [],
               currentChunkStart = 0, currentChunkLines = [], pos = 0 \<rparr>"

definition parseRST :: "(string \<Rightarrow> string) \<Rightarrow> (string \<Rightarrow> ChunkType) \<Rightarrow> string \<Rightarrow> ParsedChunk list" where
  "parseRST efs dct text =
     (let lines = splitLines text;
          st = rstLoop efs dct lines rstInit
      in rstChunks st @
         (if currentChunkLines st \<noteq> []
          then optList (createChunk efs dct (currentChunkLines st) (currentChunkStart st)
                 (int (length lines) - 1) (headingStack st))
          else []))"

text \<open>
  Markdown and AsciiDoc headings: the regular expressions \<open>/^(#{1,6})\s+(.+)$/\<close> and
  \<open>/^(={1,6})\s+(.+)$/\<close> on one line. The line holds one to six marks, then white space,
  then at least one more character up to the end of the line, none of them a line
  terminator (\<open>.\<close> does not match a carriage return). When nothing follows the white
  space, \<open>\s+\<close> backs off by one character, which then is the whole of \<open>(.+)\<close>. The
  result is the number of marks and the trimmed second group.
\<close>

definition isLineTerminator :: "char \<Rightarrow> bool" where
  "isLineTerminator c = (c = CHR 0x0A \<or> c = CHR 0x0D)"

definition matchHeading :: "char \<Rightarrow> string \<Rightarrow> (nat \<times> string) option" where
  "matchHeading mark line =
     (let k = length (takeWhile (\<lambda>x. x = mark) line);
          w = takeWhile isSpace (drop k line);
          rest = dropWhile isSpace (drop k line)
      in if 1 \<le> k \<and> k \<le> 6 \<and> w \<noteq> [] \<and> \<not> list_ex isLineTerminator rest
            \<and> (rest \<noteq> [] \<or> (2 \<le> length w \<and> \<not> isLineTerminator (last w)))
         then Some (k, trim rest) else None)"

record HeadingState =
  mdChunks :: "ParsedChunk list"
  mdStack :: "HeadingEntry list"
  mdChunkStart :: int
  mdChunkLines :: "string list"

definition headingStep :: "char \<Rightarrow> (string \<Rightarrow> string) \<Rightarrow> (string \<Rightarrow> ChunkType) \<Rightarrow> HeadingState
    \<Rightarrow> nat \<times> string \<Rightarrow> HeadingState" where
  "headingStep mark efs dct st il =
     (case il of (i, line) \<Rightarrow>
        (case matchHeading mark line of
           Some (lvl, txt) \<Rightarrow>
             \<lparr> mdChunks = (if mdChunkLines st \<noteq> []
                           then mdChunks st @ optList (createChunk efs dct (mdChunkLines st)
                                  (mdChunkStart st) (int i - 1) (mdStack st))
                           else mdChunks st),
               mdStack = popHeadings lvl (mdStack st)
                         @ [\<lparr> level = lvl, headingText = txt, lineNo = i \<rparr>],
               mdChunkStart = int i,
               mdChunkLines = [line] \<rparr>
         | None \<Rightarrow> st\<lparr> mdChunkLines := mdChunkLines st @ [line] \<rparr>))"

definition parseHeadings :: "char \<Rightarrow> (string \<Rightarrow> string) \<Rightarrow> (string \<Rightarrow> ChunkType) \<Rightarrow> string
    \<Rightarrow> ParsedChunk list" where
  "parseHeadings mark efs dct text =
     (let lines = splitLines text;
          st = foldl (headingStep mark efs dct)
                 \<lparr> mdChunks = [], mdStack = [], mdChunkStart = 0, mdChunkLines = [] \<rparr>
                 (zip [0 ..< length lines] lines)
      in mdChunks st @
         (if mdChunkLines st \<noteq> []
          then optList (createChunk efs dct (mdChunkLines st) (mdChunkStart st)
                 (int (length lines) - 1) (mdStack st))
          else []))"

definition parseMarkdown :: "(string \<Rightarrow> string) \<Rightarrow> (string \<Rightarrow> ChunkType) \<Rightarrow> string \<Rightarrow> ParsedChunk list" where
  "parseMarkdown = parseHeadings (CHR ''#'')"

definition parseAsciiDoc :: "(string \<Rightarrow> string) \<Rightarrow> (string \<Rightarrow> ChunkType) \<Rightarrow> string \<Rightarrow> ParsedChunk list" where
  "parseAsciiDoc = parseHeadings (CHR ''='')"

definition plainStep :: "(string \<Rightarrow> string) \<Rightarrow> ParsedChunk list \<times> int \<Rightarrow> string \<Rightarrow> ParsedChunk list \<times> int" where
  "plainStep efs st paragraph =
     (case st of (chunks, offset) \<Rightarrow>
        (let trimmed = trim paragraph;
             n = int (length (splitLines paragraph))
         in if trimmed = [] then (chunks, offset + n)
            else (chunks @ [\<lparr> headings = [], firstSentence = efs trimmed, chunkType = Paragraph,
                              content = trimmed, startLine = offset, endLine = offset + n - 1 \<rparr>],
                  offset + n + 1)))"

definition parsePlainText :: "(string \<Rightarrow> string) \<Rightarrow> string \<Rightarrow> ParsedChunk list" where
  "parsePlainText efs text = fst (foldl (plainStep efs) ([], 0) (paragraphsOf text))"


section \<open>More string functions of the runtime\<close>

text \<open>\<open>toLowerCase\<close> on code units below 256: the ASCII capitals and the Latin-1 capitals
  (all of \<open>0xC0\<close> to \<open>0xDE\<close> but the multiplication sign) move up by 32.\<close>

definition lowerChar :: "char \<Rightarrow> char" where
  "lowerChar c =
     (let n = (of_char c :: nat)
      in if (65 \<le> n \<and> n \<le> 90) \<or> (192 \<le> n \<and> n \<le> 222 \<and> n \<noteq> 215) then char_of (n + 32) else c)"

definition toLowerCase :: "string \<Rightarrow> string" where
  "toLowerCase s = map lowerChar s"

fun startsWith :: "string \<Rightarrow> string \<Rightarrow> bool" where
  "startsWith s [] = True"
| "startsWith [] (q # qs) = False"
| "startsWith (c # s) (q # qs) = (c = q \<and> startsWith s qs)"

fun includesStr :: "string \<Rightarrow> string \<Rightarrow> bool" where
  "includesStr [] q = (q = [])"
| "includesStr (c # s) q = (startsWith (c # s) q \<or> includesStr s q)"

text \<open>\<open>s.split(/\s+/)\<close>: maximal runs of white space separate the pieces.\<close>

function splitWhitespace :: "string \<Rightarrow> string list" where
  "splitWhitespace [] = [[]]"
| "splitWhitespace (c # t) =
     (if isSpace c then [] # splitWhitespace (dropWhile isSpace t)
      else consHead c (splitWhitespace t))"
  by pat_completeness auto
termination
  by (relation "measure length") (auto simp: length_dropWhile_le less_Suc_eq_le)

text \<open>The decimal rendering of a number in a template string.\<close>

definition digitChar :: "nat \<Rightarrow> char" where
  "digitChar n = char_of (48 + n)"

function showNat :: "nat \<Rightarrow> string" where
  "showNat n = (if n < 10 then [digitChar n] else showNat (n div 10) @ [digitChar (n mod 10)])"
  by pat_completeness auto
termination
  by (relation "measure (\<lambda>n. n)") auto

declare showNat.simps [simp del]

definition showInt :: "int \<Rightarrow> string" where
  "showInt i = (if i < 0 then CHR ''-'' # showNat (nat (- i)) else showNat (nat i))"

text \<open>\<open>path.extname\<close> of Node (POSIX flavour): the part of the last path segment from
  its last dot on, empty when there is no dot, when the segment starts with its only
  dot, or when the segment is \<open>..\<close>; trailing separators do not count.\<close>

fun lastIndexOf :: "char \<Rightarrow> string \<Rightarrow> nat option" where
  "lastIndexOf d [] = None"
| "lastIndexOf d (c # t) = (case lastIndexOf d t of Some k \<Rightarrow> Some (Suc k)
                             | None \<Rightarrow> if c = d then Some 0 else None)"

definition extname :: "string \<Rightarrow> string" where
  "extname path =
     (let base = last (splitOn (CHR ''/'') (rev (dropWhile (\<lambda>c. c = CHR ''/'') (rev path))))
      in case lastIndexOf (CHR ''.'') base of
           None \<Rightarrow> []
         | Some d \<Rightarrow> if d = 0 \<or> base = ''..'' then [] else drop d base)"

section \<open>Index data model (types.ts)\<close>

record ChunkMetadata =
  wordCount :: nat
  tokenCount :: int

text \<open>\<open>DocChunk\<close>. The fields \<open>id\<close>, \<open>file\<close> and \<open>context\<close> are written \<open>chunkId\<close>,
  \<open>chunkFile\<close> and \<open>chunkContext\<close>.\<close>

record DocChunk =
  chunkId :: string
  chunkFile :: string
  startLine :: int
  endLine :: int
  content :: string
  chunkContext :: string
  hierarchy :: "string list"
  chunkType :: ChunkType
  chunkMetadata :: "ChunkMetadata option"

text \<open>\<open>SerializedIndex\<close> of storage.ts: the value handed to the binary encoder. The type
  \<open>'n\<close> stands for \<open>number[]\<close>.\<close>

record 'n SerializedIndex =
  version :: string
  indexedAt :: int
  fileCount :: nat
  chunkCount :: nat
  chunks :: "(string \<times> DocChunk list) list"
  embeddings :: "(string \<times> 'n) list"

record IndexMetadata =
  version :: string
  indexedAt :: int
  fileCount :: nat
  chunkCount :: nat

text \<open>
  A JavaScript \<open>Map\<close> is kept as the list of its entries in insertion order; \<open>mapSet\<close>
  overwrites the value of a present key in place and appends an absent one, as
  \<open>Map.prototype.set\<close> does. The vector type \<open>'v\<close> stands for \<open>Float32Array\<close>.
\<close>

fun mapSet :: "'k \<Rightarrow> 'a \<Rightarrow> ('k \<times> 'a) list \<Rightarrow> ('k \<times> 'a) list" where
  "mapSet k v [] = [(k, v)]"
| "mapSet k v (e # m) = (if fst e = k then (k, v) # m else e # mapSet k v m)"

definition mapDelete :: "'k \<Rightarrow> ('k \<times> 'a) list \<Rightarrow> ('k \<times> 'a) list" where
  "mapDelete k m = filter (\<lambda>e. fst e \<noteq> k) m"


record 'v DocIndex =
  chunks :: "(string \<times> DocChunk list) list"
  embeddings :: "(string \<times> 'v) list"
  metadata :: IndexMetadata

record ChunkingConfig =
  minTokens :: int
  maxTokens :: int
  splitAtHeadings :: bool

definition DEFAULT_CHUNKING_CONFIG :: ChunkingConfig where
  "DEFAULT_CHUNKING_CONFIG = \<lparr> minTokens = 200, maxTokens = 500, splitAtHeadings = True \<rparr>"

section \<open>Context generator (context-generator.ts)\<close>

definition docsDirNames :: "string list" where
  "docsDirNames = [''docs'', ''documentation'', ''doc'', ''guides'', ''wiki'']"

text \<open>The \<open>for\<close> loop of \<open>extractCategory\<close> over the path segments: the first segment
  that is a documentation directory name and is followed by a non-empty segment without
  a dot decides.\<close>

fun findCategory :: "string list \<Rightarrow> string option" where
  "findCategory [] = None"
| "findCategory [part] = None"
| "findCategory (part # nextPart # rest) =
     (if toLowerCase part \<noteq> [] \<and> toLowerCase part \<in> set docsDirNames
         \<and> nextPart \<noteq> [] \<and> CHR ''.'' \<notin> set nextPart
      then Some nextPart
      else findCategory (nextPart # rest))"

definition extractCategory :: "string \<Rightarrow> string" where
  "extractCategory filePath =
     (let pathParts = splitOn (CHR ''/'') filePath
      in case findCategory pathParts of
           Some c \<Rightarrow> c
         | None \<Rightarrow>
             (if 2 \<le> length pathParts
              then (let secondToLast = pathParts ! (length pathParts - 2)
                    in if secondToLast \<noteq> [] \<and> CHR ''.'' \<notin> set secondToLast
                       then secondToLast else ''general'')
              else ''general''))"

definition generateContext :: "(string \<Rightarrow> string) \<Rightarrow> DocChunk \<Rightarrow> string" where
  "generateContext efs chunk =
     (let category = extractCategory (chunkFile chunk);
          hier = joinWith '' > '' (hierarchy chunk);
          sentence = efs (content chunk)
      in if hier \<noteq> [] \<and> sentence \<noteq> [] then category @ '' > '' @ hier @ '': '' @ take 80 sentence
         else if hier \<noteq> [] then category @ '' > '' @ hier
         else if sentence \<noteq> [] then category @ '': '' @ take 80 sentence
         else category)"

definition generateSearchableText :: "DocChunk \<Rightarrow> string" where
  "generateSearchableText chunk =
     toLowerCase (joinWith '' '' ([chunkContext chunk] @ hierarchy chunk @ [content chunk]))"

section \<open>Scanner (scanner.ts)\<close>

text \<open>
  The file system as the scanner sees it: a path is missing, present but unreadable
  (\<open>readFileSync\<close> throws), or readable with its text. The parameter \<open>embedFn\<close> is the injected
  embedding provider \<open>generateEmbedding\<close> (\<open>None\<close> when no vector can be produced) and
  \<open>toF32\<close> stands for \<open>new Float32Array(...)\<close>.
\<close>

datatype 'a FileState = Missing | Unreadable | Readable 'a

datatype IOError = ReadError | LockError | WriteError | DecodeError

definition countWords :: "string \<Rightarrow> nat" where
  "countWords txt = length (filter (\<lambda>w. w \<noteq> []) (splitWhitespace txt))"

definition toDocChunk :: "(string \<Rightarrow> string) \<Rightarrow> string \<Rightarrow> ParsedChunk \<Rightarrow> DocChunk" where
  "toDocChunk efs file parsed =
     (let chunk = \<lparr> chunkId = file @ '':'' @ showInt (ParsedChunk.startLine parsed),
                    chunkFile = file,
                    startLine = ParsedChunk.startLine parsed,
                    endLine = ParsedChunk.endLine parsed,
                    content = ParsedChunk.content parsed,
                    chunkContext = [],
                    hierarchy = headings parsed,
                    chunkType = ParsedChunk.chunkType parsed,
                    chunkMetadata = Some \<lparr> wordCount = countWords (ParsedChunk.content parsed),
                                           tokenCount = estimateTokenCount (ParsedChunk.content parsed) \<rparr> \<rparr>
      in chunk\<lparr> chunkContext := generateContext efs chunk \<rparr>)"

definition processFile :: "(string \<Rightarrow> string) \<Rightarrow> (string \<Rightarrow> ChunkType) \<Rightarrow> (string \<Rightarrow> string FileState)
    \<Rightarrow> string \<Rightarrow> ChunkingConfig \<Rightarrow> IOError + DocChunk list" where
  "processFile efs dct fs file config =
     (case fs file of
        Readable txt \<Rightarrow>
          (let ext = toLowerCase (extname file);
               parsed = (if ext \<in> set [''.md'', ''.markdown''] then parseMarkdown efs dct txt
                         else if ext = ''.rst'' then parseRST efs dct txt
                         else if ext \<in> set [''.adoc'', ''.asciidoc''] then parseAsciiDoc efs dct txt
                         else parsePlainText efs txt);
               sized = (if splitAtHeadings config
                        then splitLargeChunks (mergeSmallChunks parsed (minTokens config)) (maxTokens config)
                        else parsed)
           in Inr (map (toDocChunk efs file) sized))
      | _ \<Rightarrow> Inl ReadError)"

text \<open>The loop that stores one embedding per chunk of a processed file.\<close>

definition embedChunks :: "(string \<Rightarrow> 'n option) \<Rightarrow> ('n \<Rightarrow> 'v) \<Rightarrow> (string \<times> 'v) list \<Rightarrow> DocChunk list
    \<Rightarrow> (string \<times> 'v) list" where
  "embedChunks embedFn toF32 embs cs =
     foldl (\<lambda>m chunk. case embedFn (chunkContext chunk) of
                         None \<Rightarrow> m
                       | Some e \<Rightarrow> mapSet (chunkId chunk) (toF32 e) m) embs cs"

definition storeFile :: "(string \<Rightarrow> 'n option) \<Rightarrow> ('n \<Rightarrow> 'v) \<Rightarrow> string \<Rightarrow> DocChunk list \<Rightarrow> 'v DocIndex
    \<Rightarrow> 'v DocIndex" where
  "storeFile embedFn toF32 file cs index =
     (if cs \<noteq> []
      then index\<lparr> chunks := mapSet file cs (chunks index),
                  embeddings := embedChunks embedFn toF32 (embeddings index) cs \<rparr>
      else index)"

definition recount :: "'v DocIndex \<Rightarrow> IndexMetadata" where
  "recount index = (metadata index)
     \<lparr> fileCount := length (chunks index),
       chunkCount := sum_list (map (\<lambda>e. length (snd e)) (chunks index)) \<rparr>"

text \<open>\<open>scanAndIndexDocumentation\<close>, from the list of files that the directory walk found
  and the clock reading \<open>now\<close>. A file whose processing throws is skipped.\<close>

definition scanStep :: "(string \<Rightarrow> string) \<Rightarrow> (string \<Rightarrow> ChunkType) \<Rightarrow> (string \<Rightarrow> 'n option) \<Rightarrow> ('n \<Rightarrow> 'v)
    \<Rightarrow> (string \<Rightarrow> string FileState) \<Rightarrow> ChunkingConfig \<Rightarrow> 'v DocIndex \<Rightarrow> string \<Rightarrow> 'v DocIndex" where
  "scanStep efs dct embedFn toF32 fs config index file =
     (case processFile efs dct fs file config of
        Inl err \<Rightarrow> index
      | Inr cs \<Rightarrow> storeFile embedFn toF32 file cs index)"

definition scanAndIndexDocumentation :: "(string \<Rightarrow> string) \<Rightarrow> (string \<Rightarrow> ChunkType)
    \<Rightarrow> (string \<Rightarrow> 'n option) \<Rightarrow> ('n \<Rightarrow> 'v) \<Rightarrow> (string \<Rightarrow> string FileState) \<Rightarrow> int \<Rightarrow> string list
    \<Rightarrow> ChunkingConfig \<Rightarrow> 'v DocIndex" where
  "scanAndIndexDocumentation efs dct embedFn toF32 fs now files config =
     (let index = foldl (scanStep efs dct embedFn toF32 fs config)
                    \<lparr> chunks = [], embeddings = [],
                      metadata = \<lparr> version = ''1.0.0'', indexedAt = now, fileCount = 0, chunkCount = 0 \<rparr> \<rparr>
                    files
      in index\<lparr> metadata := recount index \<rparr>)"

text \<open>\<open>updateIndexForFiles\<close>: the old chunks of the file and the embeddings whose key
  starts with \<open>file:\<close> are deleted first; the file is processed again if it exists.\<close>

definition updateStep :: "(string \<Rightarrow> string) \<Rightarrow> (string \<Rightarrow> ChunkType) \<Rightarrow> (string \<Rightarrow> 'n option) \<Rightarrow> ('n \<Rightarrow> 'v)
    \<Rightarrow> (string \<Rightarrow> string FileState) \<Rightarrow> ChunkingConfig \<Rightarrow> 'v DocIndex \<Rightarrow> string \<Rightarrow> 'v DocIndex" where
  "updateStep efs dct embedFn toF32 fs config index file =
     (let removed = index\<lparr> chunks := mapDelete file (chunks index),
                           embeddings := filter (\<lambda>e. \<not> startsWith (fst e) (file @ '':''))
                                           (embeddings index) \<rparr>
      in if fs file \<noteq> Missing
         then (case processFile efs dct fs file config of
                 Inl err \<Rightarrow> removed
               | Inr cs \<Rightarrow> storeFile embedFn toF32 file cs removed)
         else removed)"

definition updateIndexForFiles :: "(string \<Rightarrow> string) \<Rightarrow> (string \<Rightarrow> ChunkType)
    \<Rightarrow> (string \<Rightarrow> 'n option) \<Rightarrow> ('n \<Rightarrow> 'v) \<Rightarrow> (string \<Rightarrow> string FileState) \<Rightarrow> int \<Rightarrow> 'v DocIndex
    \<Rightarrow> string list \<Rightarrow> ChunkingConfig \<Rightarrow> 'v DocIndex" where
  "updateIndexForFiles efs dct embedFn toF32 fs now index files config =
     (let updated = foldl (updateStep efs dct embedFn toF32 fs config) index files
      in updated\<lparr> metadata := (recount updated)\<lparr> indexedAt := now \<rparr> \<rparr>)"

text \<open>All chunks of an index, in the iteration order of \<open>index.chunks.values()\<close>.\<close>

definition allChunks :: "'v DocIndex \<Rightarrow> DocChunk list" where
  "allChunks index = concat (map snd (chunks index))"


section \<open>Search engine (search.ts)\<close>

text \<open>
  The collaborators of the search engine: the glob matcher \<open>minimatch\<close>, the embedding
  provider, \<open>cosineSimilarity\<close> and \<open>Array.from\<close> on a stored vector. Scores are real
  numbers; the sum of two scores is the sum of reals.
\<close>

record ('n, 'v) SearchDeps =
  minimatch :: "string \<Rightarrow> string \<Rightarrow> bool"
  generateEmbedding :: "string \<Rightarrow> 'n option"
  cosineSimilarity :: "'n \<Rightarrow> 'n \<Rightarrow> real"
  arrayFrom :: "'v \<Rightarrow> 'n"

record SearchFilters =
  filePattern :: "string option"
  category :: "string list option"
  minScore :: "real option"

record SearchResult = DocChunk +
  score :: real
  match_reason :: string

datatype SearchMode = Semantic | Exact | Fuzzy

definition DEFAULT_LIMIT :: int where
  "DEFAULT_LIMIT = 10"

definition matchesFilters :: "('n, 'v) SearchDeps \<Rightarrow> DocChunk \<Rightarrow> SearchFilters option \<Rightarrow> bool" where
  "matchesFilters deps chunk filters =
     (case filters of
        None \<Rightarrow> True
      | Some f \<Rightarrow>
          if (case filePattern f of None \<Rightarrow> False
              | Some p \<Rightarrow> p \<noteq> [] \<and> \<not> minimatch deps (chunkFile chunk) p)
          then False
          else if (case category f of None \<Rightarrow> False
                   | Some cats \<Rightarrow> cats \<noteq> []
                       \<and> \<not> list_ex (\<lambda>cat. includesStr (toLowerCase (chunkContext chunk)) (toLowerCase cat)) cats)
          then False
          else True)"

text \<open>The \<open>if\<close>/\<open>else if\<close> chain of \<open>keywordSearch\<close> that sets \<open>score\<close> and \<open>matchReason\<close>
  (both start as \<open>0\<close> and the empty string).\<close>

definition keywordHit :: "DocChunk \<Rightarrow> string \<Rightarrow> real \<times> string" where
  "keywordHit chunk queryLower =
     (if includesStr (toLowerCase (chunkContext chunk)) queryLower then (0.9, ''context match'')
      else if list_ex (\<lambda>h. includesStr (toLowerCase h) queryLower) (hierarchy chunk)
        then (0.8, ''heading match'')
      else if includesStr (generateSearchableText chunk) queryLower then (0.6, ''content match'')
      else (0, []))"

definition withScore :: "DocChunk \<Rightarrow> real \<Rightarrow> string \<Rightarrow> SearchResult" where
  "withScore chunk sc reason = DocChunk.extend chunk \<lparr> score = sc, match_reason = reason \<rparr>"

definition keywordSearchChunk :: "('n, 'v) SearchDeps \<Rightarrow> string \<Rightarrow> SearchFilters option \<Rightarrow> DocChunk
    \<Rightarrow> SearchResult list" where
  "keywordSearchChunk deps queryLower filters chunk =
     (if \<not> matchesFilters deps chunk filters then []
      else (case keywordHit chunk queryLower of
              (sc, reason) \<Rightarrow> if sc > 0 then [withScore chunk sc reason] else []))"

definition keywordSearch :: "('n, 'v) SearchDeps \<Rightarrow> 'v DocIndex \<Rightarrow> string \<Rightarrow> SearchFilters option
    \<Rightarrow> SearchResult list" where
  "keywordSearch deps index query filters =
     concat (map (keywordSearchChunk deps (toLowerCase query) filters) (allChunks index))"

definition semanticSearchEntry :: "('n, 'v) SearchDeps \<Rightarrow> 'v DocIndex \<Rightarrow> SearchFilters option \<Rightarrow> 'n
    \<Rightarrow> string \<times> 'v \<Rightarrow> SearchResult list" where
  "semanticSearchEntry deps index filters queryEmbedding entry =
     (case find (\<lambda>c. chunkId c = fst entry) (allChunks index) of
        None \<Rightarrow> []
      | Some chunk \<Rightarrow>
          if \<not> matchesFilters deps chunk filters then []
          else (let similarity = cosineSimilarity deps queryEmbedding (arrayFrom deps (snd entry))
                in if similarity > 0.3 then [withScore chunk similarity ''semantic similarity''] else []))"

definition semanticSearch :: "('n, 'v) SearchDeps \<Rightarrow> 'v DocIndex \<Rightarrow> string \<Rightarrow> SearchFilters option
    \<Rightarrow> SearchResult list" where
  "semanticSearch deps index query filters =
     (case generateEmbedding deps query of
        None \<Rightarrow> []
      | Some queryEmbedding \<Rightarrow>
          concat (map (semanticSearchEntry deps index filters queryEmbedding) (embeddings index)))"

definition mergeSemantic :: "(string \<times> SearchResult) list \<Rightarrow> SearchResult \<Rightarrow> (string \<times> SearchResult) list" where
  "mergeSemantic mergedMap result =
     (case map_of mergedMap (chunkId result) of
        Some existing \<Rightarrow>
          mapSet (chunkId result)
            (existing\<lparr> score := score existing + score result,
                       match_reason := match_reason existing @ '' + '' @ match_reason result \<rparr>)
            mergedMap
      | None \<Rightarrow> mapSet (chunkId result) result mergedMap)"

definition mergeResults :: "SearchResult list \<Rightarrow> SearchResult list \<Rightarrow> SearchResult list" where
  "mergeResults keywordResults semanticResults =
     map snd (foldl mergeSemantic
                (foldl (\<lambda>m result. mapSet (chunkId result) result m) [] keywordResults)
                semanticResults)"

definition semanticSearchWithKeyword :: "('n, 'v) SearchDeps \<Rightarrow> 'v DocIndex \<Rightarrow> string
    \<Rightarrow> SearchFilters option \<Rightarrow> SearchResult list" where
  "semanticSearchWithKeyword deps index query filters =
     mergeResults (keywordSearch deps index query filters) (semanticSearch deps index query filters)"

text \<open>
  \<open>levenshteinDistance\<close>. The matrix is filled row by row; \<open>levRow\<close> computes row \<open>i\<close> from
  row \<open>i - 1\<close> (\<open>diag\<close> and \<open>up\<close> are its entries at \<open>j - 1\<close> and \<open>j\<close>, \<open>left\<close> is the entry
  just written).
\<close>

fun levRow :: "string \<Rightarrow> nat list \<Rightarrow> char \<Rightarrow> nat \<Rightarrow> nat list" where
  "levRow (ac # as) (diag # up # prev) bc left =
     (let v = (if bc = ac then diag else min (min (diag + 1) (left + 1)) (up + 1))
      in v # levRow as (up # prev) bc v)"
| "levRow as prev bc left = []"

definition levenshteinDistance :: "string \<Rightarrow> string \<Rightarrow> nat" where
  "levenshteinDistance a b =
     last (foldl (\<lambda>prev ib. fst ib # levRow a prev (snd ib) (fst ib))
             [0 ..< Suc (length a)] (zip [1 ..< Suc (length b)] b))"

text \<open>One candidate of the fuzzy search: \<open>1 - distance / maxLen\<close> replaces the best score
  when it is greater. For two empty strings the quotient is \<open>NaN\<close> in the source and the
  comparison fails.\<close>

definition fuzzyBest :: "string \<Rightarrow> real \<Rightarrow> string \<Rightarrow> real" where
  "fuzzyBest queryLower best candidate =
     (let maxLen = max (length queryLower) (length candidate)
      in if maxLen = 0 then best
         else (let sc = 1 - real (levenshteinDistance queryLower candidate) / real maxLen
               in if sc > best then sc else best))"

definition fuzzySearchChunk :: "('n, 'v) SearchDeps \<Rightarrow> string \<Rightarrow> SearchFilters option \<Rightarrow> DocChunk
    \<Rightarrow> SearchResult list" where
  "fuzzySearchChunk deps queryLower filters chunk =
     (if \<not> matchesFilters deps chunk filters then []
      else (let afterHeadings = foldl (fuzzyBest queryLower) 0 (map toLowerCase (hierarchy chunk));
                bestScore = foldl (fuzzyBest queryLower) afterHeadings
                              (splitWhitespace (toLowerCase (chunkContext chunk)))
            in if bestScore > 0.6 then [withScore chunk bestScore ''fuzzy match''] else []))"

definition fuzzySearch :: "('n, 'v) SearchDeps \<Rightarrow> 'v DocIndex \<Rightarrow> string \<Rightarrow> SearchFilters option
    \<Rightarrow> SearchResult list" where
  "fuzzySearch deps index query filters =
     concat (map (fuzzySearchChunk deps (toLowerCase query) filters) (allChunks index))"

text \<open>\<open>results.sort((a, b) => b.score - a.score)\<close> is a stable sort by descending score;
  \<open>results.slice(0, limit)\<close> counts a negative limit from the end.\<close>

definition sortByScore :: "SearchResult list \<Rightarrow> SearchResult list" where
  "sortByScore rs = sort_key (\<lambda>r. - score r) rs"

definition sliceTo :: "int \<Rightarrow> 'a list \<Rightarrow> 'a list" where
  "sliceTo limit xs = (if limit < 0 then take (nat (int (length xs) + limit)) xs
                       else take (nat limit) xs)"

definition searchDocumentation :: "('n, 'v) SearchDeps \<Rightarrow> 'v DocIndex \<Rightarrow> string \<Rightarrow> SearchMode
    \<Rightarrow> SearchFilters option \<Rightarrow> int \<Rightarrow> SearchResult list" where
  "searchDocumentation deps index query mode filters limit =
     (let results = (case mode of
                       Exact \<Rightarrow> keywordSearch deps index query filters
                     | Fuzzy \<Rightarrow> fuzzySearch deps index query filters
                     | Semantic \<Rightarrow> semanticSearchWithKeyword deps index query filters)
      in sliceTo limit (sortByScore results))"

section \<open>Index store (storage.ts)\<close>









section \<open>Example inputs\<close>





section \<open>Predicates used in the statements\<close>






definition pathSegments :: "string \<Rightarrow> string list" where
  "pathSegments filePath = splitOn (CHR ''/'') filePath"

text \<open>Segment \<open>i\<close> of a path is a documentation directory name and segment \<open>i + 1\<close> is
  non-empty and has no dot.\<close>

definition categoryAt :: "string list \<Rightarrow> nat \<Rightarrow> bool" where
  "categoryAt parts i =
     (Suc i < length parts \<and> toLowerCase (parts ! i) \<in> set docsDirNames
      \<and> parts ! Suc i \<noteq> [] \<and> CHR ''.'' \<notin> set (parts ! Suc i))"

definition authChunk :: DocChunk where
  "authChunk = \<lparr> chunkId = ''docs/frontend/auth.md:0'', chunkFile = ''docs/frontend/auth.md'',
                 startLine = 0, endLine = 2,
                 content = ''# Authentication'' @ [NL, NL] @ ''The frontend uses JWT tokens.'',
                 chunkContext = ''frontend > Authentication: uses JWT tokens'',
                 hierarchy = [''Authentication''], chunkType = Heading,
                 chunkMetadata = Some \<lparr> wordCount = 7, tokenCount = 12 \<rparr> \<rparr>"

definition authIndex :: "real list DocIndex" where
  "authIndex = \<lparr> chunks = [(''docs/frontend/auth.md'', [authChunk])], embeddings = [],
                 metadata = \<lparr> version = ''1.0.0'', indexedAt = 0, fileCount = 1, chunkCount = 1 \<rparr> \<rparr>"

text \<open>Collaborators for the examples: a glob matcher that accepts every file and an
  embedding provider that is unavailable.\<close>

definition plainDeps :: "(real list, real list) SearchDeps" where
  "plainDeps = \<lparr> minimatch = (\<lambda>file pattern. True), generateEmbedding = (\<lambda>q. None),
                 cosineSimilarity = (\<lambda>a b. 0), arrayFrom = (\<lambda>v. v) \<rparr>"

text \<open>
  An index with two chunks under one identifier, as the scanner builds it from a
  reStructuredText file that opens with an overlined title (see
  \<open>scan_builds_duplicate_chunks\<close> among the properties of the scanner), and
  collaborators with an available embedding provider and a similarity of 0.4.
\<close>

definition rstBody :: string where
  "rstBody = ''====='' @ [NL] @ ''Title'' @ [NL] @ ''====='' @ [NL, NL] @ replicate 800 CHR ''x''"

definition dupChunk1 :: DocChunk where
  "dupChunk1 = \<lparr> chunkId = ''guide.rst:0'', chunkFile = ''guide.rst'', startLine = 0, endLine = - 1,
                 content = ''====='', chunkContext = ''general: ====='', hierarchy = [],
                 chunkType = Paragraph,
                 chunkMetadata = Some \<lparr> wordCount = 1, tokenCount = 2 \<rparr> \<rparr>"

definition dupChunk2 :: DocChunk where
  "dupChunk2 = \<lparr> chunkId = ''guide.rst:0'', chunkFile = ''guide.rst'', startLine = 0, endLine = 4,
                 content = rstBody, chunkContext = ''general > Title: ====='', hierarchy = [''Title''],
                 chunkType = Paragraph,
                 chunkMetadata = Some \<lparr> wordCount = 4, tokenCount = 205 \<rparr> \<rparr>"

definition dupIndex :: "real list DocIndex" where
  "dupIndex = \<lparr> chunks = [(''guide.rst'', [dupChunk1, dupChunk2])],
                embeddings = [(''guide.rst:0'', [1])],
                metadata = \<lparr> version = ''1.0.0'', indexedAt = 0, fileCount = 1, chunkCount = 2 \<rparr> \<rparr>"




text \<open>What the hybrid merge makes of a keyword result, given the semantic results: the
  scores are added and the reasons joined when a semantic result has the same identifier.\<close>

definition boosted :: "SearchResult list \<Rightarrow> SearchResult \<Rightarrow> SearchResult" where
  "boosted semanticResults k =
     (case find (\<lambda>s. chunkId s = chunkId k) semanticResults of
        None \<Rightarrow> k
      | Some s \<Rightarrow> k\<lparr> score := score k + score s,
                     match_reason := match_reason k @ '' + '' @ match_reason s \<rparr>)"

text \<open>The fields of a stored chunk that do not pass through the two text filters.\<close>

definition storedFields :: "DocChunk \<Rightarrow> string \<times> string \<times> int \<times> int \<times> string \<times> string list \<times> ChunkMetadata option" where
  "storedFields c = (chunkId c, chunkFile c, startLine c, endLine c, content c, hierarchy c, chunkMetadata c)"

definition rstDisk :: "string \<Rightarrow> string FileState" where
  "rstDisk path = (if path = ''guide.rst'' then Readable rstBody else Missing)"
















section \<open>Properties of the chunk assembler\<close>




subsection \<open>Merge pass\<close>












subsection \<open>Split pass\<close>

lemma makePiece_fields [simp]:
  "headings (makePiece chunk cur s) = headings chunk"
  "ParsedChunk.chunkType (makePiece chunk cur s) = ParsedChunk.chunkType chunk"
  "ParsedChunk.content (makePiece chunk cur s) = cur"
  by (simp_all add: makePiece_def)













section \<open>Properties of the context generator\<close>

lemma lower_docs_nonempty: "toLowerCase p \<in> set docsDirNames \<Longrightarrow> toLowerCase p \<noteq> []"
  by (auto simp: docsDirNames_def)

lemma categoryAt_Cons_Suc: "categoryAt (p # ps) (Suc i) = categoryAt ps i"
  by (simp add: categoryAt_def)

lemma findCategory_None: "findCategory parts = None \<longleftrightarrow> (\<forall>j. \<not> categoryAt parts j)"
proof (induction parts rule: findCategory.induct)
  case 1
  show ?case by (simp add: categoryAt_def)
next
  case (2 part)
  show ?case by (simp add: categoryAt_def)
next
  case (3 part nextPart rest)
  show ?case
  proof (cases "categoryAt (part # nextPart # rest) 0")
    case True
    then have "findCategory (part # nextPart # rest) = Some nextPart"
      by (simp add: categoryAt_def lower_docs_nonempty)
    with True show ?thesis by auto
  next
    case False
    then have eq: "findCategory (part # nextPart # rest) = findCategory (nextPart # rest)"
      by (auto simp: categoryAt_def)
    have "(\<forall>j. \<not> categoryAt (part # nextPart # rest) j) \<longleftrightarrow> (\<forall>j. \<not> categoryAt (nextPart # rest) j)"
    proof
      assume a: "\<forall>j. \<not> categoryAt (part # nextPart # rest) j"
      show "\<forall>j. \<not> categoryAt (nextPart # rest) j"
      proof
        fix j
        from a have "\<not> categoryAt (part # nextPart # rest) (Suc j)" by blast
        then show "\<not> categoryAt (nextPart # rest) j" by (simp add: categoryAt_Cons_Suc)
      qed
    next
      assume a: "\<forall>j. \<not> categoryAt (nextPart # rest) j"
      show "\<forall>j. \<not> categoryAt (part # nextPart # rest) j"
      proof
        fix j
        show "\<not> categoryAt (part # nextPart # rest) j"
          using False a by (cases j) (simp_all add: categoryAt_Cons_Suc)
      qed
    qed
    with 3 False eq show ?thesis by (auto simp: categoryAt_def)
  qed
qed

lemma findCategory_first:
  "categoryAt parts i \<Longrightarrow> (\<forall>j<i. \<not> categoryAt parts j) \<Longrightarrow> findCategory parts = Some (parts ! Suc i)"
proof (induction parts arbitrary: i rule: findCategory.induct)
  case 1
  then show ?case by (simp add: categoryAt_def)
next
  case (2 part)
  then show ?case by (simp add: categoryAt_def)
next
  case (3 part nextPart rest)
  show ?case
  proof (cases i)
    case 0
    with "3.prems"(1) show ?thesis by (simp add: categoryAt_def lower_docs_nonempty)
  next
    case (Suc k)
    with "3.prems"(2) have no0: "\<not> categoryAt (part # nextPart # rest) 0" by blast
    then have eq: "findCategory (part # nextPart # rest) = findCategory (nextPart # rest)"
      by (auto simp: categoryAt_def)
    have k: "categoryAt (nextPart # rest) k"
      using "3.prems"(1) Suc by (simp add: categoryAt_Cons_Suc)
    have before: "\<forall>j<k. \<not> categoryAt (nextPart # rest) j"
    proof (intro allI impI)
      fix j assume "j < k"
      then have "\<not> categoryAt (part # nextPart # rest) (Suc j)"
        using "3.prems"(2) Suc by simp
      then show "\<not> categoryAt (nextPart # rest) j" by (simp add: categoryAt_Cons_Suc)
    qed
    have cond: "\<not> (toLowerCase part \<noteq> [] \<and> toLowerCase part \<in> set docsDirNames \<and> nextPart \<noteq> []
        \<and> CHR ''.'' \<notin> set nextPart)"
      using no0 by (auto simp: categoryAt_def)
    from "3.IH"[OF cond k before] eq Suc show ?thesis by simp
  qed
qed

text \<open>
  C7 (amended). \<open>extractCategory\<close> returns the segment that follows the first
  documentation directory name (docs, documentation, doc, guides, wiki, in any letter
  case) whose following segment is non-empty and has no dot. When the path has no such
  pair, it returns the name of the parent directory if that name is non-empty and has no
  dot, and \<open>general\<close> otherwise (a root-level file, an empty parent name, or a parent name
  with a dot). \<open>docs/frontend/auth.md\<close> gives \<open>frontend\<close> and \<open>README.md\<close> gives \<open>general\<close>.
\<close>

theorem extractCategory_rule:
  "(categoryAt (pathSegments filePath) i \<and> (\<forall>j<i. \<not> categoryAt (pathSegments filePath) j)
      \<longrightarrow> extractCategory filePath = pathSegments filePath ! Suc i)
   \<and> ((\<forall>j. \<not> categoryAt (pathSegments filePath) j) \<and> 2 \<le> length (pathSegments filePath)
       \<and> pathSegments filePath ! (length (pathSegments filePath) - 2) \<noteq> []
       \<and> CHR ''.'' \<notin> set (pathSegments filePath ! (length (pathSegments filePath) - 2))
      \<longrightarrow> extractCategory filePath = pathSegments filePath ! (length (pathSegments filePath) - 2))
   \<and> ((\<forall>j. \<not> categoryAt (pathSegments filePath) j)
       \<and> (length (pathSegments filePath) < 2
           \<or> pathSegments filePath ! (length (pathSegments filePath) - 2) = []
           \<or> CHR ''.'' \<in> set (pathSegments filePath ! (length (pathSegments filePath) - 2)))
      \<longrightarrow> extractCategory filePath = ''general'')
   \<and> extractCategory ''docs/frontend/auth.md'' = ''frontend''
   \<and> extractCategory ''README.md'' = ''general''"
proof (intro conjI impI)
  assume a: "categoryAt (pathSegments filePath) i \<and> (\<forall>j<i. \<not> categoryAt (pathSegments filePath) j)"
  then have "findCategory (pathSegments filePath) = Some (pathSegments filePath ! Suc i)"
    by (intro findCategory_first) simp_all
  then show "extractCategory filePath = pathSegments filePath ! Suc i"
    by (simp add: extractCategory_def pathSegments_def)
next
  assume a: "(\<forall>j. \<not> categoryAt (pathSegments filePath) j) \<and> 2 \<le> length (pathSegments filePath)
       \<and> pathSegments filePath ! (length (pathSegments filePath) - 2) \<noteq> []
       \<and> CHR ''.'' \<notin> set (pathSegments filePath ! (length (pathSegments filePath) - 2))"
  then have "findCategory (pathSegments filePath) = None"
    by (simp add: findCategory_None)
  with a show "extractCategory filePath = pathSegments filePath ! (length (pathSegments filePath) - 2)"
    by (simp add: extractCategory_def pathSegments_def Let_def)
next
  assume a: "(\<forall>j. \<not> categoryAt (pathSegments filePath) j)
       \<and> (length (pathSegments filePath) < 2
           \<or> pathSegments filePath ! (length (pathSegments filePath) - 2) = []
           \<or> CHR ''.'' \<in> set (pathSegments filePath ! (length (pathSegments filePath) - 2)))"
  then have "findCategory (pathSegments filePath) = None"
    by (simp add: findCategory_None)
  with a show "extractCategory filePath = ''general''"
    by (auto simp: extractCategory_def pathSegments_def Let_def)
next
  show "extractCategory ''docs/frontend/auth.md'' = ''frontend''"
    by code_simp
next
  show "extractCategory ''README.md'' = ''general''"
    by code_simp
qed

text \<open>
  C7, as the claim states it, fails: \<open>v1.2/readme.md\<close> has no documentation directory
  and its parent directory is named \<open>v1.2\<close>, yet the result is \<open>general\<close>, because the
  fall-back rejects a parent name with a dot.
\<close>

theorem extractCategory_parent_counterexample:
  "findCategory (pathSegments ''v1.2/readme.md'') = None
   \<and> pathSegments ''v1.2/readme.md'' = [''v1.2'', ''readme.md'']
   \<and> extractCategory ''v1.2/readme.md'' = ''general''"
  by code_simp

theorem extractCategory_rule_witness:
  "categoryAt (pathSegments ''docs/frontend/auth.md'') 0
   \<and> extractCategory ''docs/frontend/auth.md'' = ''frontend''
   \<and> findCategory (pathSegments ''src/lib/notes.txt'') = None
   \<and> extractCategory ''src/lib/notes.txt'' = ''lib''
   \<and> findCategory (pathSegments ''v1.2/readme.md'') = None
   \<and> extractCategory ''v1.2/readme.md'' = ''general''"
proof -
  have a: "categoryAt (pathSegments ''docs/frontend/auth.md'') 0"
    by code_simp
  have a': "pathSegments ''docs/frontend/auth.md'' ! Suc 0 = ''frontend''"
    by code_simp
  have b: "findCategory (pathSegments ''src/lib/notes.txt'') = None"
    by code_simp
  have b': "pathSegments ''src/lib/notes.txt'' = [''src'', ''lib'', ''notes.txt'']"
    by code_simp
  have c: "findCategory (pathSegments ''v1.2/readme.md'') = None"
    by code_simp
  have c': "pathSegments ''v1.2/readme.md'' = [''v1.2'', ''readme.md'']"
    by code_simp
  have r1: "extractCategory ''docs/frontend/auth.md'' = ''frontend''"
    using extractCategory_rule[of "''docs/frontend/auth.md''" 0] a a' by simp
  have nb: "\<forall>j. \<not> categoryAt (pathSegments ''src/lib/notes.txt'') j"
    using b by (rule iffD1[OF findCategory_None])
  have nc: "\<forall>j. \<not> categoryAt (pathSegments ''v1.2/readme.md'') j"
    using c by (rule iffD1[OF findCategory_None])
  have r2: "extractCategory ''src/lib/notes.txt'' = ''lib''"
    using extractCategory_rule[of "''src/lib/notes.txt''" 0] nb
    unfolding b' by simp
  have r3: "extractCategory ''v1.2/readme.md'' = ''general''"
    using extractCategory_rule[of "''v1.2/readme.md''" 0] nc
    unfolding c' by simp
  show ?thesis using a b c r1 r2 r3 by simp
qed

section \<open>Properties of the search engine\<close>

lemma exact_example_search: "searchDocumentation plainDeps authIndex ''authentication'' Exact None DEFAULT_LIMIT
   = [withScore authChunk 0.9 ''context match'']"
  by code_simp




lemma mapSet_absent: "k \<notin> fst ` set m \<Longrightarrow> mapSet k v m = m @ [(k, v)]"
  by (induction m) auto

lemma mapSet_present:
  "distinct (map fst m) \<Longrightarrow> k \<in> fst ` set m \<Longrightarrow>
   mapSet k v m = map (\<lambda>e. if fst e = k then (k, v) else e) m"
proof (induction m)
  case Nil
  then show ?case by simp
next
  case (Cons e m)
  show ?case
  proof (cases "fst e = k")
    case True
    from Cons.prems(1) have "fst e \<notin> fst ` set m" by simp
    with True have "\<forall>x \<in> set m. fst x \<noteq> k" by (metis image_eqI)
    then have "map (\<lambda>e. if fst e = k then (k, v) else e) m = m"
      by (induction m) auto
    with True show ?thesis by simp
  next
    case False
    with Cons show ?thesis by auto
  qed
qed

lemma keyword_map:
  "distinct (map chunkId kw) \<Longrightarrow>
   foldl (\<lambda>m r. mapSet (chunkId r) r m) [] kw = map (\<lambda>r. (chunkId r, r)) kw"
proof (induction kw rule: rev_induct)
  case Nil
  show ?case by simp
next
  case (snoc x xs)
  then have "chunkId x \<notin> fst ` set (map (\<lambda>r. (chunkId r, r)) xs)"
    by (auto simp: image_iff)
  with snoc show ?case by (simp add: mapSet_absent)
qed

lemma boosted_id [simp]: "chunkId (boosted sem k) = chunkId k"
  by (simp add: boosted_def split: option.splits)

lemma find_append: "find P (xs @ ys) = (case find P xs of None \<Rightarrow> find P ys | Some x \<Rightarrow> Some x)"
  by (induction xs) auto

lemma find_None_ids: "chunkId k \<notin> chunkId ` set sem \<Longrightarrow> find (\<lambda>s. chunkId s = chunkId k) sem = None"
  by (induction sem) auto

lemma merge_fold:
  assumes dk: "distinct (map chunkId kw)" and ds: "distinct (map chunkId sem)"
  shows "foldl mergeSemantic (map (\<lambda>r. (chunkId r, r)) kw) sem
     = map (\<lambda>k. (chunkId k, boosted sem k)) kw
       @ map (\<lambda>s. (chunkId s, s)) (filter (\<lambda>s. chunkId s \<notin> chunkId ` set kw) sem)"
  using ds
proof (induction sem rule: rev_induct)
  case Nil
  show ?case by (simp add: boosted_def)
next
  case (snoc s sem)
  let ?R = "map (\<lambda>k. (chunkId k, boosted sem k)) kw
       @ map (\<lambda>s. (chunkId s, s)) (filter (\<lambda>s. chunkId s \<notin> chunkId ` set kw) sem)"
  from snoc.prems have ds': "distinct (map chunkId sem)" and fresh: "chunkId s \<notin> chunkId ` set sem"
    by auto
  have IH: "foldl mergeSemantic (map (\<lambda>r. (chunkId r, r)) kw) sem = ?R"
    using snoc.IH ds' by simp
  have keysR: "map fst ?R = map chunkId kw @ map chunkId (filter (\<lambda>s. chunkId s \<notin> chunkId ` set kw) sem)"
    by (simp add: comp_def)
  have distR: "distinct (map fst ?R)"
  proof -
    have "distinct (map chunkId (filter (\<lambda>s. chunkId s \<notin> chunkId ` set kw) sem))"
      using ds' by (rule distinct_map_filter)
    moreover have "set (map chunkId kw)
        \<inter> set (map chunkId (filter (\<lambda>s. chunkId s \<notin> chunkId ` set kw) sem)) = {}"
      by (auto simp: image_iff)
    ultimately show ?thesis
      unfolding keysR using dk by simp
  qed
  show ?case
  proof (cases "chunkId s \<in> chunkId ` set kw")
    case True
    then obtain k where k: "k \<in> set kw" "chunkId k = chunkId s" by auto
    have "(chunkId k, boosted sem k) \<in> (\<lambda>k. (chunkId k, boosted sem k)) ` set kw"
      using k(1) by (rule imageI)
    then have memR: "(chunkId s, boosted sem k) \<in> set ?R"
      unfolding k(2) by simp
    have look: "map_of ?R (chunkId s) = Some (boosted sem k)"
      using distR memR by (rule map_of_is_SomeI)
    have bk: "boosted sem k = k"
      using fresh k(2) by (simp add: boosted_def find_None_ids)
    have inR: "chunkId s \<in> fst ` set ?R"
      using memR by (intro image_eqI[where x = "(chunkId s, boosted sem k)"]) simp_all
    have step: "mergeSemantic ?R s = map (\<lambda>e. if fst e = chunkId s
          then (chunkId s, k\<lparr> score := score k + score s,
                              match_reason := match_reason k @ '' + '' @ match_reason s \<rparr>) else e) ?R"
      unfolding mergeSemantic_def look option.case bk
      by (rule mapSet_present[OF distR inR])
    have b1: "\<And>k'. k' \<in> set kw \<Longrightarrow> chunkId k' = chunkId s \<Longrightarrow>
        boosted (sem @ [s]) k' = k\<lparr> score := score k + score s,
                              match_reason := match_reason k @ '' + '' @ match_reason s \<rparr>"
    proof -
      fix k' assume a: "k' \<in> set kw" "chunkId k' = chunkId s"
      with k dk have "k' = k" by (metis distinct_map inj_onD)
      then show "boosted (sem @ [s]) k' = k\<lparr> score := score k + score s,
                              match_reason := match_reason k @ '' + '' @ match_reason s \<rparr>"
        using fresh k(2) by (simp add: boosted_def find_append find_None_ids)
    qed
    have b2: "\<And>k'. chunkId k' \<noteq> chunkId s \<Longrightarrow> boosted (sem @ [s]) k' = boosted sem k'"
      by (auto simp: boosted_def find_append split: option.splits)
    have "foldl mergeSemantic (map (\<lambda>r. (chunkId r, r)) kw) (sem @ [s]) = mergeSemantic ?R s"
      using IH by simp
    also have "\<dots> = map (\<lambda>k. (chunkId k, boosted (sem @ [s]) k)) kw
       @ map (\<lambda>s. (chunkId s, s)) (filter (\<lambda>s. chunkId s \<notin> chunkId ` set kw) (sem @ [s]))"
      unfolding step using True fresh b1 b2
      by (auto simp: image_iff)
    finally show ?thesis .
  next
    case False
    have notin: "chunkId s \<notin> fst ` set ?R"
      using False fresh by (auto simp: image_iff)
    then have look: "map_of ?R (chunkId s) = None"
      unfolding map_of_eq_None_iff .
    have b2: "\<And>k'. k' \<in> set kw \<Longrightarrow> boosted (sem @ [s]) k' = boosted sem k'"
      using False by (auto simp: boosted_def find_append image_iff split: option.splits)
    have "foldl mergeSemantic (map (\<lambda>r. (chunkId r, r)) kw) (sem @ [s]) = mergeSemantic ?R s"
      using IH by simp
    also have "\<dots> = ?R @ [(chunkId s, s)]"
      unfolding mergeSemantic_def look option.case by (rule mapSet_absent[OF notin])
    also have "\<dots> = map (\<lambda>k. (chunkId k, boosted (sem @ [s]) k)) kw
       @ map (\<lambda>s. (chunkId s, s)) (filter (\<lambda>s. chunkId s \<notin> chunkId ` set kw) (sem @ [s]))"
      using False b2 by simp
    finally show ?thesis .
  qed
qed

lemma mergeResults_distinct:
  assumes "distinct (map chunkId kw)" and "distinct (map chunkId sem)"
  shows "mergeResults kw sem
     = map (boosted sem) kw @ filter (\<lambda>s. chunkId s \<notin> chunkId ` set kw) sem"
  unfolding mergeResults_def keyword_map[OF assms(1)] merge_fold[OF assms]
  by (simp add: comp_def)

lemma withScore_id [simp]: "chunkId (withScore c s r) = chunkId c"
  by (simp add: withScore_def DocChunk.defs)

lemma keywordSearchChunk_ids:
  "map chunkId (keywordSearchChunk deps q f c)
     = (if keywordSearchChunk deps q f c = [] then [] else [chunkId c])"
  by (auto simp: keywordSearchChunk_def split: prod.splits)

lemma ids_concat_filter:
  assumes "\<And>x. x \<in> set xs \<Longrightarrow> map chunkId (g x) = (if g x = [] then [] else [key x])"
  shows "map chunkId (concat (map g xs)) = map key (filter (\<lambda>x. g x \<noteq> []) xs)"
  using assms by (induction xs) auto

lemma keywordSearch_ids:
  "map chunkId (keywordSearch deps index q f)
     = map chunkId (filter (\<lambda>c. keywordSearchChunk deps (toLowerCase q) f c \<noteq> []) (allChunks index))"
  unfolding keywordSearch_def
  by (rule ids_concat_filter) (rule keywordSearchChunk_ids)

lemma keywordSearch_distinct:
  "distinct (map chunkId (allChunks index)) \<Longrightarrow> distinct (map chunkId (keywordSearch deps index q f))"
  unfolding keywordSearch_ids by (rule distinct_map_filter)




lemma boosted_Nil: "boosted [] = (\<lambda>k. k)"
  by (simp add: boosted_def fun_eq_iff)

lemma mergeResults_Nil: "distinct (map chunkId kw) \<Longrightarrow> mergeResults kw [] = kw"
  by (simp add: mergeResults_distinct boosted_Nil)




text \<open>
  C10, as the claim states it for every index, fails on the same index: with no
  embedding for the query the exact search returns both chunks, and the semantic mode
  returns only one of them, because the results pass through the map keyed by
  identifier.
\<close>

theorem semantic_degrades_counterexample:
  "generateEmbedding plainDeps ''general'' = None
   \<and> searchDocumentation plainDeps dupIndex ''general'' Exact None DEFAULT_LIMIT
       = [withScore dupChunk1 0.9 ''context match'', withScore dupChunk2 0.9 ''context match'']
   \<and> searchDocumentation plainDeps dupIndex ''general'' Semantic None DEFAULT_LIMIT
       = [withScore dupChunk2 0.9 ''context match'']"
  by code_simp

text \<open>
  C10 (amended). When no embedding can be produced for the query, \<open>semanticSearch\<close>
  returns the empty list, and for every index whose chunk identifiers are pairwise
  distinct, every query, all filters and every limit, \<open>searchDocumentation\<close> in semantic
  mode returns exactly the results of the exact search, sorted by descending score and
  cut to the limit: the same list as in exact mode.
\<close>

theorem semantic_degrades:
  "generateEmbedding deps query = None \<longrightarrow>
     semanticSearch deps index query filters = []
     \<and> (distinct (map chunkId (allChunks index)) \<longrightarrow>
          searchDocumentation deps index query Semantic filters limit
            = sliceTo limit (sortByScore (keywordSearch deps index query filters))
          \<and> searchDocumentation deps index query Semantic filters limit
            = searchDocumentation deps index query Exact filters limit)"
  by (simp add: semanticSearch_def searchDocumentation_def semanticSearchWithKeyword_def
      mergeResults_Nil keywordSearch_distinct)

theorem semantic_degrades_witness:
  "generateEmbedding plainDeps ''authentication'' = None
   \<and> semanticSearch plainDeps authIndex ''authentication'' None = []
   \<and> distinct (map chunkId (allChunks authIndex))
   \<and> searchDocumentation plainDeps authIndex ''authentication'' Semantic None DEFAULT_LIMIT
       = [withScore authChunk 0.9 ''context match'']"
proof -
  have n: "generateEmbedding plainDeps ''authentication'' = None"
    by (simp add: plainDeps_def)
  have d: "distinct (map chunkId (allChunks authIndex))"
    by code_simp
  have "semanticSearch plainDeps authIndex ''authentication'' None = []
      \<and> searchDocumentation plainDeps authIndex ''authentication'' Semantic None DEFAULT_LIMIT
        = searchDocumentation plainDeps authIndex ''authentication'' Exact None DEFAULT_LIMIT"
    using semantic_degrades[of plainDeps "''authentication''" authIndex None DEFAULT_LIMIT] n d
    by blast
  then show ?thesis
    using n d exact_example_search by simp
qed

section \<open>Properties of the scanner\<close>

lemma toDocChunk_id: "chunkId (toDocChunk efs file parsed) = file @ '':'' @ showInt (ParsedChunk.startLine parsed)"
  by (simp add: toDocChunk_def Let_def)

lemma storedFields_toDocChunk:
  "storedFields (toDocChunk efs file p)
     = (file @ '':'' @ showInt (ParsedChunk.startLine p), file, ParsedChunk.startLine p,
        ParsedChunk.endLine p, ParsedChunk.content p, headings p,
        Some \<lparr> wordCount = countWords (ParsedChunk.content p),
               tokenCount = estimateTokenCount (ParsedChunk.content p) \<rparr>)"
  by (simp add: storedFields_def toDocChunk_def Let_def)

lemma rst_sized:
  "map (\<lambda>p. (headings p, ParsedChunk.content p, ParsedChunk.startLine p, ParsedChunk.endLine p))
     (splitLargeChunks (mergeSmallChunks (parseRST efs dct rstBody) 200) 500)
   = [([], ''====='', 0, - 1), ([''Title''], rstBody, 0, 4)]"
  by code_simp

lemma rst_counts:
  "countWords ''====='' = 1 \<and> estimateTokenCount ''====='' = 2
   \<and> countWords rstBody = 4 \<and> estimateTokenCount rstBody = 205"
  by code_simp

lemma ext_rst: "toLowerCase (extname ''guide.rst'') = ''.rst''"
  by code_simp

lemma show0: "showInt 0 = ''0''"
  by code_simp

lemma dup_fields:
  "map storedFields [dupChunk1, dupChunk2]
     = [(''guide.rst:0'', ''guide.rst'', 0, - 1, ''====='', [], Some \<lparr> wordCount = 1, tokenCount = 2 \<rparr>),
        (''guide.rst:0'', ''guide.rst'', 0, 4, rstBody, [''Title''], Some \<lparr> wordCount = 4, tokenCount = 205 \<rparr>)]"
  by (simp add: storedFields_def dupChunk1_def dupChunk2_def)

lemma processFile_guide:
  "\<exists>cs. processFile efs dct rstDisk ''guide.rst'' DEFAULT_CHUNKING_CONFIG = Inr cs
     \<and> map storedFields cs = map storedFields [dupChunk1, dupChunk2]"
proof -
  let ?sized = "splitLargeChunks (mergeSmallChunks (parseRST efs dct rstBody) 200) 500"
  have p: "processFile efs dct rstDisk ''guide.rst'' DEFAULT_CHUNKING_CONFIG
      = Inr (map (toDocChunk efs ''guide.rst'') ?sized)"
    by (simp add: processFile_def rstDisk_def ext_rst DEFAULT_CHUNKING_CONFIG_def)
  have "map storedFields (map (toDocChunk efs ''guide.rst'') ?sized)
      = map (\<lambda>q. case q of (h, c, s, e) \<Rightarrow>
               (''guide.rst'' @ '':'' @ showInt s, ''guide.rst'', s, e, c, h,
                Some \<lparr> wordCount = countWords c, tokenCount = estimateTokenCount c \<rparr>))
          (map (\<lambda>p. (headings p, ParsedChunk.content p, ParsedChunk.startLine p, ParsedChunk.endLine p))
             ?sized)"
    by (simp add: storedFields_toDocChunk comp_def)
  also have "\<dots> = map storedFields [dupChunk1, dupChunk2]"
    unfolding rst_sized dup_fields by (simp add: rst_counts show0)
  finally show ?thesis using p by blast
qed

lemma scan_single:
  assumes "processFile efs dct fs file config = Inr cs"
  shows "allChunks (scanAndIndexDocumentation efs dct embedFn toF32 fs now [file] config) = cs"
  using assms
  by (cases "cs = []")
     (simp_all add: scanAndIndexDocumentation_def scanStep_def storeFile_def allChunks_def Let_def)

lemma update_single:
  assumes "processFile efs dct fs file config = Inr cs" and "fs file \<noteq> Missing"
  shows "allChunks (updateIndexForFiles efs dct embedFn toF32 fs now
           \<lparr> chunks = [], embeddings = [], metadata = meta \<rparr> [file] config) = cs"
  using assms
  by (cases "cs = []")
     (simp_all add: updateIndexForFiles_def updateStep_def storeFile_def allChunks_def Let_def
        mapDelete_def)

lemma chunkId_storedFields: "map chunkId cs = map fst (map storedFields cs)"
  by (simp add: storedFields_def comp_def)

text \<open>The full scan of \<open>guide.rst\<close> stores the two chunks of the example index, up to
  the fields that the text filters fill.\<close>

lemma scan_builds_duplicate_chunks:
  "map storedFields (allChunks (scanAndIndexDocumentation efs dct embedFn toF32 rstDisk now
       [''guide.rst''] DEFAULT_CHUNKING_CONFIG)) = map storedFields (allChunks dupIndex)"
proof -
  obtain cs where cs: "processFile efs dct rstDisk ''guide.rst'' DEFAULT_CHUNKING_CONFIG = Inr cs"
      and f: "map storedFields cs = map storedFields [dupChunk1, dupChunk2]"
    using processFile_guide[of efs dct] by blast
  have "allChunks dupIndex = [dupChunk1, dupChunk2]"
    by (simp add: allChunks_def dupIndex_def)
  with f show ?thesis
    by (simp add: scan_single[OF cs])
qed

text \<open>
  C9. The identifier of a chunk is the file path, a colon and the start line, so it is
  a function of path and start line and nothing is drawn at random. Identifiers are
  not unique, though. The file \<open>guide.rst\<close> holds an overlined title on its first three
  lines (\<open>=====\<close>, \<open>Title\<close>, \<open>=====\<close>), a blank line and a body of 800 characters. When
  the parser meets the title, the overline is already among the lines of the chunk in
  progress: it is saved as a chunk of its own that starts at line 0, and the title chunk
  starts at line 0 as well. With the default configuration the first chunk is flushed
  unmerged, and both the full scan and the incremental update of the empty index store
  two chunks under the identifier \<open>guide.rst:0\<close>.
\<close>

theorem scan_duplicate_ids:
  "map chunkId (allChunks (scanAndIndexDocumentation efs dct embedFn toF32 rstDisk now
       [''guide.rst''] DEFAULT_CHUNKING_CONFIG)) = [''guide.rst:0'', ''guide.rst:0'']
   \<and> map chunkId (allChunks (updateIndexForFiles efs dct embedFn toF32 rstDisk now
       \<lparr> chunks = [], embeddings = [], metadata = meta \<rparr> [''guide.rst''] DEFAULT_CHUNKING_CONFIG))
       = [''guide.rst:0'', ''guide.rst:0'']
   \<and> chunkId (toDocChunk efs file parsed) = file @ '':'' @ showInt (ParsedChunk.startLine parsed)"
proof -
  obtain cs where cs: "processFile efs dct rstDisk ''guide.rst'' DEFAULT_CHUNKING_CONFIG = Inr cs"
      and f: "map storedFields cs = map storedFields [dupChunk1, dupChunk2]"
    using processFile_guide[of efs dct] by blast
  have ids: "map chunkId cs = [''guide.rst:0'', ''guide.rst:0'']"
    unfolding chunkId_storedFields[of cs] f
    by (simp add: storedFields_def dupChunk1_def dupChunk2_def)
  have ex: "rstDisk ''guide.rst'' \<noteq> Missing"
    by (simp add: rstDisk_def)
  show ?thesis
    using ids by (simp add: scan_single[OF cs] update_single[OF cs ex] toDocChunk_id)
qed

section \<open>Properties of the index store\<close>








section \<open>Properties of the reStructuredText parser\<close>

















end
